theory Spec2Isabelle
  imports Complex_Main "HOL-Library.Sublist" "HOL-Library.AList" "HOL-Library.Multiset"
begin

section \<open>Text primitives of the server\<close>

text \<open>
  The server (\<^verbatim>\<open>serverStock.py\<close>) works on Python \<^verbatim>\<open>str\<close> values. They are modelled
  as HOL strings holding ASCII text: the case mappings act on the letters A-Z and a-z and
  leave every other character alone, white space and line boundaries are the ASCII ones.
  A Python name with a leading underscore (\<^verbatim>\<open>_norm\<close>, \<^verbatim>\<open>_find\<close>, ...) is written with the
  prefix \<open>u_\<close>.
\<close>

definition lower_char :: "char \<Rightarrow> char" where
  "lower_char c =
     (case map_of (zip ''ABCDEFGHIJKLMNOPQRSTUVWXYZ'' ''abcdefghijklmnopqrstuvwxyz'') c of
        Some d \<Rightarrow> d
      | None \<Rightarrow> c)"

definition upper_char :: "char \<Rightarrow> char" where
  "upper_char c =
     (case map_of (zip ''abcdefghijklmnopqrstuvwxyz'' ''ABCDEFGHIJKLMNOPQRSTUVWXYZ'') c of
        Some d \<Rightarrow> d
      | None \<Rightarrow> c)"

text \<open>\<^verbatim>\<open>s.lower()\<close> and \<^verbatim>\<open>s.upper()\<close>.\<close>

definition lower :: "string \<Rightarrow> string" where
  "lower s = map lower_char s"

definition upper :: "string \<Rightarrow> string" where
  "upper s = map upper_char s"

text \<open>The characters \<^verbatim>\<open>str.strip()\<close> removes: space, tab, LF, VT, FF, CR, FS, GS, RS, US.\<close>

definition is_space :: "char \<Rightarrow> bool" where
  "is_space c =
     (c \<in> set [CHR '' '', CHR 0x09, CHR 0x0A, CHR 0x0B, CHR 0x0C, CHR 0x0D,
               CHR 0x1C, CHR 0x1D, CHR 0x1E, CHR 0x1F])"

definition strip :: "string \<Rightarrow> string" where
  "strip s = rev (dropWhile is_space (rev (dropWhile is_space s)))"

text \<open>\<^verbatim>\<open>sub in s\<close> on strings: \<open>sub\<close> occurs in \<open>s\<close> as a contiguous run.\<close>

fun contains :: "string \<Rightarrow> string \<Rightarrow> bool" where
  "contains sub [] = (sub = [])"
| "contains sub (c # cs) = (prefix sub (c # cs) \<or> contains sub cs)"

text \<open>The line boundaries of \<^verbatim>\<open>str.splitlines()\<close>: LF, VT, FF, CR, FS, GS, RS; CR LF is one.\<close>

definition is_linebreak :: "char \<Rightarrow> bool" where
  "is_linebreak c =
     (c \<in> set [CHR 0x0A, CHR 0x0B, CHR 0x0C, CHR 0x0D, CHR 0x1C, CHR 0x1D, CHR 0x1E])"

fun splitlines_from :: "string \<Rightarrow> string \<Rightarrow> string list" where
  "splitlines_from cur [] = (if cur = [] then [] else [cur])"
| "splitlines_from cur [c] = (if is_linebreak c then [cur] else [cur @ [c]])"
| "splitlines_from cur (c # d # cs) =
     (if c = CHR 0x0D \<and> d = CHR 0x0A then cur # splitlines_from [] cs
      else if is_linebreak c then cur # splitlines_from [] (d # cs)
      else splitlines_from (cur @ [c]) (d # cs))"

definition splitlines :: "string \<Rightarrow> string list" where
  "splitlines s = splitlines_from [] s"

text \<open>\<^verbatim>\<open>sep.join(xs)\<close>.\<close>

fun join :: "string \<Rightarrow> string list \<Rightarrow> string" where
  "join sep [] = []"
| "join sep [x] = x"
| "join sep (x # y # ys) = x @ sep @ join sep (y # ys)"

section \<open>Decision normalizer\<close>

text \<open>
  \<^verbatim>\<open>_norm\<close> of \<^verbatim>\<open>run_tradingagents_analysis\<close>. The argument may be \<^verbatim>\<open>None\<close>;
  \<^verbatim>\<open>(s or "")\<close> turns \<^verbatim>\<open>None\<close> (and the empty string) into the empty string.
\<close>

definition or_empty :: "string option \<Rightarrow> string" where
  "or_empty s = (case s of None \<Rightarrow> [] | Some x \<Rightarrow> x)"

definition u_norm :: "string option \<Rightarrow> string" where
  "u_norm s =
     (let v = lower (strip (or_empty s)) in
      if contains ''buy'' v then ''Buy''
      else if contains ''sell'' v then ''Sell''
      else ''Hold'')"

text \<open>
  The conditional expression of the streaming generator that computes \<^verbatim>\<open>norm\<close> from
  \<^verbatim>\<open>str(decision).lower()\<close>; \<open>decision\<close> is a string there.
\<close>

definition norm_of_decision :: "string \<Rightarrow> string" where
  "norm_of_decision decision =
     (if contains ''buy'' (lower decision) then ''Buy''
      else if contains ''sell'' (lower decision) then ''Sell''
      else ''Hold'')"

text \<open>
  \<^verbatim>\<open>parse_from_report\<close> of \<^verbatim>\<open>summarize_post\<close>: the loop over the lines of the report,
  with the variable \<^verbatim>\<open>decision\<close> as accumulator, then the function itself, which closes
  over the report text.
\<close>

fun parse_lines :: "string \<Rightarrow> string list \<Rightarrow> string option \<Rightarrow> string option" where
  "parse_lines tk [] decision = decision"
| "parse_lines tk (line # rest) decision =
     (if \<not> contains (upper tk) (upper line) then parse_lines tk rest decision
      else
        let low = lower line in
        if contains ''final'' low \<or> contains ''proposal'' low \<or> contains ''decision'' low
           \<or> contains '':'' low
        then
          (if contains ''buy'' low then parse_lines tk rest (Some ''Buy'')
           else if contains ''sell'' low then parse_lines tk rest (Some ''Sell'')
           else if contains ''hold'' low then parse_lines tk rest (Some ''Hold'')
           else parse_lines tk rest decision)
        else parse_lines tk rest decision)"

definition parse_from_report :: "string \<Rightarrow> string \<Rightarrow> string option" where
  "parse_from_report report_text tk =
     (if report_text = [] then None
      else parse_lines tk (splitlines report_text) None)"

text \<open>
  \<^verbatim>\<open>_derive_decision_from_text\<close> of the streaming generator, applied to the text of one
  streamed chunk.
\<close>

definition u_derive_decision_from_text :: "string option \<Rightarrow> string option" where
  "u_derive_decision_from_text text =
     (let txt = lower (or_empty text) in
      if txt = [] then None
      else if (contains ''final'' txt \<or> contains ''proposal'' txt \<or> contains ''decision'' txt)
              \<and> contains ''buy'' txt then Some ''Buy''
      else if (contains ''final'' txt \<or> contains ''proposal'' txt \<or> contains ''decision'' txt)
              \<and> contains ''sell'' txt then Some ''Sell''
      else if (contains ''final'' txt \<or> contains ''proposal'' txt \<or> contains ''decision'' txt)
              \<and> contains ''hold'' txt then Some ''Hold''
      else if contains ''buy'' txt then Some ''Buy''
      else if contains ''sell'' txt then Some ''Sell''
      else if contains ''hold'' txt then Some ''Hold''
      else None)"

text \<open>
  The two notions the description of the scanners uses: a line looks like an explicit
  decision, and the buy/sell/hold test in its fixed priority. Both take lowercased text.
\<close>

definition decision_marker :: "string \<Rightarrow> bool" where
  "decision_marker low =
     (contains ''final'' low \<or> contains ''proposal'' low \<or> contains ''decision'' low
      \<or> contains '':'' low)"

definition keyword_of :: "string \<Rightarrow> string option" where
  "keyword_of low =
     (if contains ''buy'' low then Some ''Buy''
      else if contains ''sell'' low then Some ''Sell''
      else if contains ''hold'' low then Some ''Hold''
      else None)"

definition matching_line :: "string \<Rightarrow> string \<Rightarrow> bool" where
  "matching_line tk line =
     (contains (upper tk) (upper line) \<and> decision_marker (lower line)
      \<and> keyword_of (lower line) \<noteq> None)"

section \<open>Python floats\<close>

text \<open>
  Prices and percentages are Python \<^verbatim>\<open>float\<close> values: IEEE 754 binary64 numbers. A finite
  one is \<open>Float s m e\<close>, of value \<open>(-1)\<^sup>s \<sqdot> m \<sqdot> 2\<^sup>e\<close>, with the sign \<open>s\<close> (\<open>True\<close>: negative), the
  significand \<open>0 \<le> m < 2\<^sup>5\<^sup>3\<close> and the exponent \<open>-1074 \<le> e \<le> 971\<close>, in the one form the format has
  for the number: \<open>2\<^sup>5\<^sup>2 \<le> m\<close> for a normal number, \<open>e = -1074\<close> for a subnormal number and for
  the two zeros. The other values are the two infinities and \<^verbatim>\<open>nan\<close>.
\<close>

datatype pyfloat = Float bool int int | Inf bool | NaN

text \<open>\<^verbatim>\<open>n.bit_length()\<close>.\<close>

function bit_length :: "int \<Rightarrow> int" where
  "bit_length n = (if n \<le> 0 then 0 else 1 + bit_length (n div 2))"
  by pat_completeness auto

termination
  by (relation "measure nat") auto

declare bit_length.simps [simp del]

text \<open>
  Rounding to the nearest float, ties to the even significand, the rounding of every
  arithmetic operation on floats. \<open>scaled_divmod n d k\<close> divides \<open>n \<sqdot> 2\<^sup>k\<close> by \<open>d\<close>:
  quotient, remainder and divisor. \<open>round_float s n d e\<close> is the float nearest to
  \<open>(-1)\<^sup>s \<sqdot> n / d \<sqdot> 2\<^sup>e\<close> for \<open>0 < d\<close>: the exponent is chosen so that the quotient has 53
  bits, not below \<open>-1074\<close>; a result beyond the largest float is an infinity.
\<close>

definition scaled_divmod :: "int \<Rightarrow> int \<Rightarrow> int \<Rightarrow> int \<times> int \<times> int" where
  "scaled_divmod n d k =
     (if 0 \<le> k then ((n * 2 ^ nat k) div d, (n * 2 ^ nat k) mod d, d)
      else (n div (d * 2 ^ nat (- k)), n mod (d * 2 ^ nat (- k)), d * 2 ^ nat (- k)))"

definition round_half_even :: "int \<times> int \<times> int \<Rightarrow> int" where
  "round_half_even qrd =
     (case qrd of (q, r, den) \<Rightarrow>
        if den < 2 * r \<or> (2 * r = den \<and> odd q) then q + 1 else q)"

definition round_float :: "bool \<Rightarrow> int \<Rightarrow> int \<Rightarrow> int \<Rightarrow> pyfloat" where
  "round_float s n d e =
     (if n = 0 then Float s 0 (- 1074)
      else
        let c = bit_length n - bit_length d - 53 + e;
            ex = max (if 2 ^ 53 \<le> fst (scaled_divmod n d (e - c)) then c + 1 else c) (- 1074);
            m = round_half_even (scaled_divmod n d (e - ex));
            m1 = (if m = 2 ^ 53 then 2 ^ 52 else m);
            ex1 = (if m = 2 ^ 53 then ex + 1 else ex)
        in if 971 < ex1 then Inf s else Float s m1 ex1)"

text \<open>The float of an integer literal, as \<^verbatim>\<open>100.0\<close>.\<close>

definition pyfloat_of_int :: "int \<Rightarrow> pyfloat" where
  "pyfloat_of_int i = round_float (i < 0) \<bar>i\<bar> 1 0"

text \<open>\<^verbatim>\<open>x == 0\<close>: true of both zeros, false of \<^verbatim>\<open>nan\<close>.\<close>

fun eq_zero :: "pyfloat \<Rightarrow> bool" where
  "eq_zero (Float s m e) = (m = 0)"
| "eq_zero (Inf s) = False"
| "eq_zero NaN = False"

text \<open>
  \<^verbatim>\<open>x - y\<close>, \<^verbatim>\<open>x * y\<close> and \<^verbatim>\<open>x / y\<close>: the exact result, rounded. An exact difference zero is
  \<^verbatim>\<open>-0.0\<close> only for \<^verbatim>\<open>-0.0 - 0.0\<close>. \<open>fdiv\<close> is the division of IEEE 754; Python's \<^verbatim>\<open>/\<close>
  differs from it for a divisor zero, where it raises \<^verbatim>\<open>ZeroDivisionError\<close>.
\<close>

definition signed :: "bool \<Rightarrow> int \<Rightarrow> int" where
  "signed s m = (if s then - m else m)"

fun fsub :: "pyfloat \<Rightarrow> pyfloat \<Rightarrow> pyfloat" where
  "fsub NaN y = NaN"
| "fsub (Inf s) NaN = NaN"
| "fsub (Inf s) (Inf t) = (if s = t then NaN else Inf s)"
| "fsub (Inf s) (Float t n k) = Inf s"
| "fsub (Float s m e) NaN = NaN"
| "fsub (Float s m e) (Inf t) = Inf (\<not> t)"
| "fsub (Float s m e) (Float t n k) =
     (let e0 = min e k;
          c = signed s m * 2 ^ nat (e - e0) - signed t n * 2 ^ nat (k - e0)
      in if c = 0 then Float (s \<and> \<not> t) 0 (- 1074)
         else round_float (c < 0) \<bar>c\<bar> 1 e0)"

fun fmul :: "pyfloat \<Rightarrow> pyfloat \<Rightarrow> pyfloat" where
  "fmul NaN y = NaN"
| "fmul (Inf s) NaN = NaN"
| "fmul (Inf s) (Inf t) = Inf (s \<noteq> t)"
| "fmul (Inf s) (Float t n k) = (if n = 0 then NaN else Inf (s \<noteq> t))"
| "fmul (Float s m e) NaN = NaN"
| "fmul (Float s m e) (Inf t) = (if m = 0 then NaN else Inf (s \<noteq> t))"
| "fmul (Float s m e) (Float t n k) = round_float (s \<noteq> t) (m * n) 1 (e + k)"

fun fdiv :: "pyfloat \<Rightarrow> pyfloat \<Rightarrow> pyfloat" where
  "fdiv NaN y = NaN"
| "fdiv (Inf s) NaN = NaN"
| "fdiv (Inf s) (Inf t) = NaN"
| "fdiv (Inf s) (Float t n k) = Inf (s \<noteq> t)"
| "fdiv (Float s m e) NaN = NaN"
| "fdiv (Float s m e) (Inf t) = Float (s \<noteq> t) 0 (- 1074)"
| "fdiv (Float s m e) (Float t n k) =
     (if n = 0 then (if m = 0 then NaN else Inf (s \<noteq> t))
      else round_float (s \<noteq> t) m n (e - k))"

section \<open>Percent change\<close>

text \<open>
  \<^verbatim>\<open>percent_change\<close>; \<open>None\<close> is Python's \<^verbatim>\<open>None\<close>. The divisor is not zero where the
  division is reached, so \<^verbatim>\<open>/\<close> does not raise there and is \<open>fdiv\<close>. A number that the
  data file holds as an integer is taken as the float nearest to it.
\<close>

definition percent_change :: "pyfloat option \<Rightarrow> pyfloat option \<Rightarrow> pyfloat option" where
  "percent_change purchase cur =
     (case purchase of
        None \<Rightarrow> None
      | Some p \<Rightarrow>
          (case cur of
             None \<Rightarrow> None
           | Some c \<Rightarrow>
               if eq_zero p then None
               else Some (fmul (fdiv (fsub c p) p) (pyfloat_of_int 100))))"

section \<open>Posts and the store\<close>

text \<open>
  A post is the JSON object the server keeps per basket. The record has the fields the
  analysis pipeline and the store read or write; \<^verbatim>\<open>title\<close>, \<^verbatim>\<open>description\<close> and the time
  stamps (\<^verbatim>\<open>createdAt\<close>, \<^verbatim>\<open>updatedAt\<close>, also the one inside \<^verbatim>\<open>analysis\<close>) are left out: no
  operation below reads them. A key that may be absent from a JSON object is an
  \<open>option\<close>; a dict whose insertion order is visible in the stored file is an association
  list, updated with \<^const>\<open>AList.update\<close> (an existing key keeps its place, a new key
  goes to the end, as in a Python dict).
\<close>

type_synonym ticker = string

text \<open>
  The value of \<^verbatim>\<open>signals\<close>: the four rationale fields copied from the engine's final
  state, or \<^verbatim>\<open>{"error": ...}\<close>, or \<^verbatim>\<open>{"note": ...}\<close>.
\<close>

datatype signals =
    Signals "string option" "string option" "string option" "string option"
  | SignalsError string
  | SignalsNote string

record ticker_result =
  suggestion :: string
  signals :: signals

record analysis =
  report :: "string option"
  per_ticker :: "(ticker \<times> ticker_result) list option"
  summary :: "string option"

record snapshot_entry =
  current :: "pyfloat option"
  pct :: "pyfloat option"

text \<open>\<^verbatim>\<open>purchases\<close> is a dict from ticker to price, a single number, or anything else.\<close>

datatype purchases =
    PurchasesDict "(ticker \<times> pyfloat) list"
  | PurchasesNumber pyfloat
  | PurchasesOther

text \<open>
  Of \<^verbatim>\<open>options\<close> the server itself interprets the key \<^verbatim>\<open>date\<close>; the other keys only
  configure the engine.
\<close>

record options =
  date :: "string option"

record post =
  post_id :: string
  tickers :: "ticker list"
  options :: options
  purchases :: purchases
  analysis :: "analysis option"
  snapshot :: "(ticker \<times> snapshot_entry) list"

text \<open>
  The data file \<^verbatim>\<open>stocks.json\<close>: unreadable (missing or corrupt), or holding a list
  of posts. \<^verbatim>\<open>_read\<close> answers the empty list for an unreadable file; \<^verbatim>\<open>_write\<close> replaces
  the whole content (through a temporary file and \<^verbatim>\<open>os.replace\<close>).
\<close>

datatype disk = Unreadable | Content "post list"

definition u_read :: "disk \<Rightarrow> post list" where
  "u_read f = (case f of Unreadable \<Rightarrow> [] | Content posts \<Rightarrow> posts)"

definition u_write :: "post list \<Rightarrow> disk \<Rightarrow> disk" where
  "u_write obj f = Content obj"

text \<open>
  \<^verbatim>\<open>_find\<close> returns a reference to the first post with the given id, which its callers
  then mutate in place inside the list: the reference is the position in the list.
\<close>

fun u_find :: "post list \<Rightarrow> string \<Rightarrow> nat option" where
  "u_find [] pid = None"
| "u_find (p # ps) pid =
     (if post_id p = pid then Some 0 else map_option Suc (u_find ps pid))"

text \<open>
  A mutator changes the post it is given in place and may raise: it maps the post to
  the post as the mutator left it and the exception raised, if any.
  \<^verbatim>\<open>_update_post\<close> returns \<open>Inr\<close> of its boolean result, or \<open>Inl\<close> of the exception
  that escaped from the mutator, and the data file afterwards.
\<close>

type_synonym mutator = "post \<Rightarrow> post \<times> string option"

definition u_update_post :: "string \<Rightarrow> mutator \<Rightarrow> disk \<Rightarrow> (string + bool) \<times> disk" where
  "u_update_post pid mutator f =
     (let posts = u_read f in
      case u_find posts pid of
        None \<Rightarrow> (Inr False, f)
      | Some i \<Rightarrow>
          (case mutator (posts ! i) of
             (p', Some e) \<Rightarrow> (Inl e, f)
           | (p', None) \<Rightarrow> (Inr True, u_write (posts[i := p']) f)))"

subsection \<open>Reordering\<close>

text \<open>
  \<^verbatim>\<open>reorder_posts\<close>. The request carries \<^verbatim>\<open>order\<close>: a list of ids (taken through
  \<^verbatim>\<open>str\<close>), a falsy value (replaced by the empty list), or some other value, which is
  answered with status 400.
\<close>

datatype order_payload = OrderIds "string list" | OrderFalsy | OrderOther









subsection \<open>Sample posts\<close>

definition sample_post :: "string \<Rightarrow> post" where
  "sample_post i =
     \<lparr>post_id = i, tickers = [''AAPL''], options = \<lparr>date = Some ''2024-01-02''\<rparr>,
      purchases = PurchasesDict [(''AAPL'', pyfloat_of_int 100)], analysis = None, snapshot = []\<rparr>"

section \<open>The analysis engine and the price feed\<close>

text \<open>
  The state dict of the TradingAgents graph. A streamed chunk is such a state; of its
  \<^verbatim>\<open>messages\<close> the server reads the \<^verbatim>\<open>content\<close> of the last one (\<open>None\<close>: no content).
  The two debate states are dicts (or absent, or falsy) of which the server reads the key
  \<^verbatim>\<open>judge_decision\<close>.
\<close>

record graph_state =
  messages :: "string option list"
  final_trade_decision :: "string option"
  investment_plan :: "string option"
  investment_debate_state :: "string option option"
  risk_debate_state :: "string option option"

text \<open>
  What the server cannot compute itself, as it answers during one request:

  \<^item> \<open>tradingagents_installed\<close>: the module-level \<^verbatim>\<open>tradingagents\<close> is not \<^verbatim>\<open>None\<close>;
  \<^item> \<open>import_error\<close>: the exception of the \<^verbatim>\<open>from tradingagents... import\<close> statements;
  \<^item> \<open>today\<close>: the date \<^verbatim>\<open>datetime.now(APP_TZ).date().isoformat()\<close> when \<^verbatim>\<open>date_str\<close> is
    computed, \<open>today_at_line i\<close>: the same expression when line \<open>i\<close> of the summary of the
    streaming run is built;
  \<^item> the session for the ticker at position \<open>i\<close> of the post, on the given date:
    \<open>propagate\<close> is \<^verbatim>\<open>TradingAgentsGraph(...).propagate(t, date_str)\<close>, an exception or the
    final state and the decision; \<open>stream\<close> is the construction of the graph followed by
    \<^verbatim>\<open>ta.graph.stream(...)\<close>, the chunks it yields and the exception that ends it, if any
    (an exception raised by the constructor comes with no chunk);
  \<^item> \<open>process_signal\<close>: \<^verbatim>\<open>ta.process_signal\<close>, an exception or its result;
  \<^item> \<open>get_latest_price i t\<close>: the answer of \<^verbatim>\<open>get_latest_price\<close> for the ticker at
    position \<open>i\<close> (\<open>None\<close> when the feed has no price or fails).
\<close>

record world =
  tradingagents_installed :: bool
  import_error :: "string option"
  today :: string
  today_at_line :: "nat \<Rightarrow> string"
  propagate :: "nat \<Rightarrow> ticker \<Rightarrow> string \<Rightarrow> string + (graph_state \<times> string option)"
  stream :: "nat \<Rightarrow> ticker \<Rightarrow> string \<Rightarrow> graph_state list \<times> string option"
  process_signal :: "string \<Rightarrow> string + string option"
  get_latest_price :: "nat \<Rightarrow> ticker \<Rightarrow> pyfloat option"

text \<open>\<^verbatim>\<open>(state.get(key) or {}).get("judge_decision")\<close>.\<close>

definition judge_decision :: "string option option \<Rightarrow> string option" where
  "judge_decision debate_state = (case debate_state of None \<Rightarrow> None | Some j \<Rightarrow> j)"

definition signals_of :: "graph_state \<Rightarrow> signals" where
  "signals_of fs =
     Signals (final_trade_decision fs) (investment_plan fs)
       (judge_decision (investment_debate_state fs)) (judge_decision (risk_debate_state fs))"

text \<open>\<^verbatim>\<open>opts.get("date") or <today>\<close>, and the line \<^verbatim>\<open>f"{t}: {sug} ({date_str})"\<close>.\<close>

definition date_or :: "options \<Rightarrow> string \<Rightarrow> string" where
  "date_or opts now = (case date opts of None \<Rightarrow> now | Some d \<Rightarrow> if d = [] then now else d)"

definition summary_line :: "ticker \<Rightarrow> string \<Rightarrow> string \<Rightarrow> string" where
  "summary_line t sug d = t @ '': '' @ sug @ '' ('' @ d @ '')''"

section \<open>The non-streaming pipeline\<close>

text \<open>
  \<^verbatim>\<open>run_tradingagents_analysis\<close>. Its result is a dict with the keys \<^verbatim>\<open>summary\<close> and
  \<^verbatim>\<open>per_ticker\<close>. The loop over the tickers carries the position of the ticker, the
  \<^verbatim>\<open>per_ticker\<close> dict and the list \<^verbatim>\<open>lines\<close>.
\<close>

record ta_result =
  res_summary :: string
  res_per_ticker :: "(ticker \<times> ticker_result) list"

fun analysis_loop ::
  "world \<Rightarrow> string \<Rightarrow> nat \<Rightarrow> ticker list
   \<Rightarrow> (ticker \<times> ticker_result) list \<times> string list
   \<Rightarrow> (ticker \<times> ticker_result) list \<times> string list" where
  "analysis_loop w date_str i [] (per, lines) = (per, lines)"
| "analysis_loop w date_str i (t # ts) (per, lines) =
     (case propagate w i t date_str of
        Inr (fs, decision) \<Rightarrow>
          let sug = u_norm decision in
          analysis_loop w date_str (Suc i) ts
            (AList.update t \<lparr>suggestion = sug, signals = signals_of fs\<rparr> per,
             lines @ [summary_line t sug date_str])
      | Inl e \<Rightarrow>
          analysis_loop w date_str (Suc i) ts
            (AList.update t \<lparr>suggestion = ''Hold'', signals = SignalsError e\<rparr> per,
             lines @ [t @ '': Hold (error)'']))"

fun placeholder_loop ::
  "signals \<Rightarrow> ticker list \<Rightarrow> (ticker \<times> ticker_result) list \<Rightarrow> (ticker \<times> ticker_result) list" where
  "placeholder_loop sig [] per = per"
| "placeholder_loop sig (t # ts) per =
     placeholder_loop sig ts (AList.update t \<lparr>suggestion = ''Hold'', signals = sig\<rparr> per)"

definition run_tradingagents_analysis :: "world \<Rightarrow> ticker list \<Rightarrow> options \<Rightarrow> ta_result" where
  "run_tradingagents_analysis w tks opts =
     (if \<not> tradingagents_installed w then
        \<lparr>res_summary = ''TradingAgents not installed; using Hold placeholder.'',
         res_per_ticker = placeholder_loop (SignalsNote ''stub'') tks []\<rparr>
      else
        case import_error w of
          Some e \<Rightarrow>
            \<lparr>res_summary = ''TradingAgents import error: '' @ e,
             res_per_ticker = placeholder_loop (SignalsError e) tks []\<rparr>
        | None \<Rightarrow>
            let date_str = date_or opts (today w);
                (per, lines) = analysis_loop w date_str 0 tks ([], [])
            in \<lparr>res_summary = join ''\<newline>'' lines, res_per_ticker = per\<rparr>)"

text \<open>
  The purchase price the snapshot compares with, and
  \<^verbatim>\<open>percent_change(buy, cur) if buy is not None else None\<close>.
\<close>

definition purchase_of :: "post \<Rightarrow> ticker \<Rightarrow> pyfloat option" where
  "purchase_of p t =
     (case purchases p of
        PurchasesDict m \<Rightarrow> map_of m t
      | PurchasesNumber x \<Rightarrow> Some x
      | PurchasesOther \<Rightarrow> None)"

definition pct_of :: "pyfloat option \<Rightarrow> pyfloat option \<Rightarrow> pyfloat option" where
  "pct_of buy cur = (if buy \<noteq> None then percent_change buy cur else None)"

fun snapshot_loop ::
  "world \<Rightarrow> post \<Rightarrow> nat \<Rightarrow> ticker list \<Rightarrow> (ticker \<times> snapshot_entry) list
   \<Rightarrow> (ticker \<times> snapshot_entry) list" where
  "snapshot_loop w p i [] snap = snap"
| "snapshot_loop w p i (t # ts) snap =
     (let cur = get_latest_price w i t;
          buy = purchase_of p t;
          pc = pct_of buy cur
      in snapshot_loop w p (Suc i) ts (AList.update t \<lparr>current = cur, pct = pc\<rparr> snap))"

text \<open>
  \<^verbatim>\<open>analyze_post\<close>: status 404 for an unknown id; otherwise the post gets a new
  \<^verbatim>\<open>analysis\<close> dict (the result of the analysis, without a report) and a new snapshot,
  and the collection is written.
\<close>

datatype 'a response = NotFound | Json 'a

definition analyze_post :: "world \<Rightarrow> string \<Rightarrow> disk \<Rightarrow> post response \<times> disk" where
  "analyze_post w pid f =
     (let posts = u_read f in
      case u_find posts pid of
        None \<Rightarrow> (NotFound, f)
      | Some k \<Rightarrow>
          let p = posts ! k;
              result = run_tradingagents_analysis w (tickers p) (options p);
              snap = snapshot_loop w p 0 (tickers p) [];
              p' = p\<lparr>analysis := Some \<lparr>report = None,
                                        per_ticker = Some (res_per_ticker result),
                                        summary = Some (res_summary result)\<rparr>,
                     snapshot := snap\<rparr>
          in (Json p', u_write (posts[k := p']) f))"

section \<open>The streaming pipeline\<close>

subsection \<open>Wrapping of log text\<close>

text \<open>
  \<^verbatim>\<open>_wrap_text\<close>, always called with its default width. \<^verbatim>\<open>line.rfind(" ", start, end)\<close>
  is the last position of a space in \<^verbatim>\<open>line[start:end]\<close>, \<open>None\<close> for \<^verbatim>\<open>-1\<close>. The
  \<^verbatim>\<open>while\<close> loop is the function \<open>wrap_line\<close> on the variable \<^verbatim>\<open>start\<close>.
\<close>

definition wrap_width :: nat where
  "wrap_width = 120"

definition rfind_space :: "string \<Rightarrow> nat \<Rightarrow> nat \<Rightarrow> nat option" where
  "rfind_space line start stop =
     (case filter (\<lambda>i. line ! i = CHR '' '') (rev [start..<stop]) of
        [] \<Rightarrow> None
      | i # rest \<Rightarrow> Some i)"

function wrap_line :: "string \<Rightarrow> nat \<Rightarrow> string list" where
  "wrap_line line start =
     (if start < length line then
        (let stop = min (start + wrap_width) (length line) in
         case rfind_space line start stop of
           None \<Rightarrow> take (stop - start) (drop start line) # wrap_line line stop
         | Some space_idx \<Rightarrow>
             if space_idx \<le> start
             then take (stop - start) (drop start line) # wrap_line line stop
             else take (space_idx - start) (drop start line) # wrap_line line (space_idx + 1))
      else [])"
  by pat_completeness auto

termination
  by (relation "measure (\<lambda>(line, start). length line - start)")
     (auto simp: wrap_width_def)

definition u_wrap_text :: "string \<Rightarrow> string" where
  "u_wrap_text s =
     join ''\<newline>''
       (concat (map (\<lambda>line. if length line \<le> wrap_width then [line] else wrap_line line 0)
                    (splitlines s)))"

subsection \<open>Events, store transactions and the state of a run\<close>

text \<open>
  The events the generator yields (each is sent as one \<^verbatim>\<open>data:\<close> record), and the calls of
  \<^verbatim>\<open>_update_post\<close> it makes, named after the mutator passed. A run carries the data file,
  the events yielded so far, the transactions made so far and the exception that ended
  the generator, if one did.
\<close>

datatype event =
    Start string "ticker list"
  | TickerStart ticker
  | Log ticker string
  | TickerDone ticker string "pyfloat option" "pyfloat option"
  | TickerError ticker string
  | Error string
  | Done string

datatype tx =
    TxInitAnalysis
  | TxLogErr string
  | TxLogLine string
  | TxUpd ticker
  | TxUpdSnap ticker
  | TxUpdErr ticker
  | TxSetSummary

record run_state =
  store :: disk
  events :: "event list"
  txs :: "tx list"
  escaped :: "string option"

definition emit :: "event \<Rightarrow> run_state \<Rightarrow> run_state" where
  "emit ev st = st\<lparr>events := events st @ [ev]\<rparr>"

text \<open>
  A call \<^verbatim>\<open>_update_post(pid, m)\<close> whose result is dropped; none of the mutators of the
  generator raises.
\<close>

definition transact :: "string \<Rightarrow> tx \<Rightarrow> (post \<Rightarrow> post) \<Rightarrow> run_state \<Rightarrow> run_state" where
  "transact pid label m st =
     st\<lparr>store := snd (u_update_post pid (\<lambda>pp. (m pp, None)) (store st)),
        txs := txs st @ [label]\<rparr>"

subsection \<open>The mutators\<close>

text \<open>
  \<^verbatim>\<open>init_analysis\<close> makes \<^verbatim>\<open>pp["analysis"]\<close> a dict with the keys \<^verbatim>\<open>report\<close> and
  \<^verbatim>\<open>per_ticker\<close>; \<open>init_ana\<close> is that dict. Every other mutator that touches the analysis
  calls \<^verbatim>\<open>init_analysis\<close> first and then works on the dict.
\<close>

definition init_ana :: "analysis option \<Rightarrow> analysis" where
  "init_ana a =
     (let ana = (case a of None \<Rightarrow> \<lparr>report = None, per_ticker = None, summary = None\<rparr>
                         | Some x \<Rightarrow> x);
          ana1 = (if report ana = None then ana\<lparr>report := Some []\<rparr> else ana);
          ana2 = (if per_ticker ana1 = None then ana1\<lparr>per_ticker := Some []\<rparr> else ana1)
      in ana2)"

definition init_analysis :: "post \<Rightarrow> post" where
  "init_analysis pp = pp\<lparr>analysis := Some (init_ana (analysis pp))\<rparr>"

text \<open>\<^verbatim>\<open>ana.get("report", "")\<close>, \<^verbatim>\<open>ana.setdefault("per_ticker", {})\<close>, and the appended log text.\<close>

definition report_of :: "analysis \<Rightarrow> string" where
  "report_of ana = (case report ana of None \<Rightarrow> [] | Some r \<Rightarrow> r)"

definition per_of :: "analysis \<Rightarrow> (ticker \<times> ticker_result) list" where
  "per_of ana = (case per_ticker ana of None \<Rightarrow> [] | Some m \<Rightarrow> m)"

definition append_report :: "string \<Rightarrow> string \<Rightarrow> string" where
  "append_report rep txt = rep @ (if rep \<noteq> [] then ''\<newline>'' else []) @ txt"

definition log_err :: "string \<Rightarrow> post \<Rightarrow> post" where
  "log_err e pp =
     (let ana = init_ana (analysis pp);
          rep = append_report (report_of ana) (u_wrap_text (''ERROR: '' @ e))
      in pp\<lparr>analysis := Some (ana\<lparr>report := Some rep\<rparr>)\<rparr>)"

text \<open>The mutator \<^verbatim>\<open>m\<close> of \<^verbatim>\<open>log_line\<close>, and \<^verbatim>\<open>log_line\<close>, which ignores its \<^verbatim>\<open>level\<close>.\<close>

definition log_line_m :: "string \<Rightarrow> post \<Rightarrow> post" where
  "log_line_m wrapped pp =
     (let ana = init_ana (analysis pp)
      in pp\<lparr>analysis := Some (ana\<lparr>report := Some (append_report (report_of ana) wrapped)\<rparr>)\<rparr>)"

definition log_line :: "string \<Rightarrow> string \<Rightarrow> run_state \<Rightarrow> run_state" where
  "log_line pid msg st = transact pid (TxLogLine msg) (log_line_m (u_wrap_text msg)) st"

definition upd :: "ticker \<Rightarrow> string \<Rightarrow> signals \<Rightarrow> post \<Rightarrow> post" where
  "upd t norm_s sig pp =
     (let ana = init_ana (analysis pp);
          per = per_of ana
      in pp\<lparr>analysis :=
              Some (ana\<lparr>per_ticker :=
                          Some (AList.update t \<lparr>suggestion = norm_s, signals = sig\<rparr> per)\<rparr>)\<rparr>)"

definition upd_snap :: "ticker \<Rightarrow> pyfloat option \<Rightarrow> pyfloat option \<Rightarrow> post \<Rightarrow> post" where
  "upd_snap t cur pc pp =
     pp\<lparr>snapshot := AList.update t \<lparr>current = cur, pct = pc\<rparr> (snapshot pp)\<rparr>"

text \<open>\<^verbatim>\<open>upd_err\<close> keeps the suggestion stored for the ticker, \<^verbatim>\<open>"Hold"\<close> if there is none.\<close>

definition upd_err :: "ticker \<Rightarrow> string \<Rightarrow> post \<Rightarrow> post" where
  "upd_err t e pp =
     (let ana = init_ana (analysis pp);
          per = per_of ana;
          sug = (case map_of per t of None \<Rightarrow> ''Hold'' | Some r \<Rightarrow> suggestion r)
      in pp\<lparr>analysis :=
              Some (ana\<lparr>per_ticker :=
                          Some (AList.update t \<lparr>suggestion = sug, signals = SignalsError e\<rparr>
                                  per)\<rparr>)\<rparr>)"

definition set_summary :: "string list \<Rightarrow> post \<Rightarrow> post" where
  "set_summary lines pp =
     (let ana = init_ana (analysis pp)
      in pp\<lparr>analysis := Some (ana\<lparr>summary := Some (join ''\<newline>'' lines)\<rparr>)\<rparr>)"

subsection \<open>One session\<close>

text \<open>
  The loop over the streamed chunks, with the state of the run and the variables
  \<^verbatim>\<open>final_state\<close> and \<^verbatim>\<open>last_decision_seen\<close>. A chunk without messages is skipped; a last
  message whose content is not blank is logged and yielded.
\<close>

fun chunk_loop ::
  "string \<Rightarrow> ticker \<Rightarrow> graph_state list
   \<Rightarrow> run_state \<times> graph_state option \<times> string option
   \<Rightarrow> run_state \<times> graph_state option \<times> string option" where
  "chunk_loop pid t [] acc = acc"
| "chunk_loop pid t (c # cs) (st, final_state, last_decision_seen) =
     (if messages c = [] then chunk_loop pid t cs (st, final_state, last_decision_seen)
      else
        let text = strip (or_empty (last (messages c))) in
        if text \<noteq> [] then
          let st1 = log_line pid (t @ '': '' @ text) st;
              d = u_derive_decision_from_text (Some text);
              seen = (if d \<noteq> None \<and> d \<noteq> Some [] then d else last_decision_seen)
          in chunk_loop pid t cs (emit (Log t text) st1, Some c, seen)
        else chunk_loop pid t cs (st, Some c, last_decision_seen))"

text \<open>
  The decision of a session that produced a final state: \<^verbatim>\<open>process_signal\<close> of a truthy
  \<^verbatim>\<open>final_trade_decision\<close> (the text itself if \<^verbatim>\<open>process_signal\<close> raises), else the last
  decision seen in the streamed text, else \<^verbatim>\<open>"Hold"\<close>.
\<close>

definition decide :: "world \<Rightarrow> graph_state \<Rightarrow> string option \<Rightarrow> string" where
  "decide w fs last_decision_seen =
     (let decision =
            (case final_trade_decision fs of
               None \<Rightarrow> None
             | Some x \<Rightarrow>
                 if x = [] then None
                 else (case process_signal w x of
                         Inr r \<Rightarrow> Some (or_empty r)
                       | Inl e \<Rightarrow> Some x));
          fallback = (case last_decision_seen of
                        None \<Rightarrow> ''Hold''
                      | Some d \<Rightarrow> if d = [] then ''Hold'' else d)
      in case decision of
           None \<Rightarrow> fallback
         | Some d \<Rightarrow> if d = [] then fallback else d)"

text \<open>The \<^verbatim>\<open>except\<close> branch of the loop body, for the exception \<open>e\<close> (as its text).\<close>

definition on_exception :: "string \<Rightarrow> ticker \<Rightarrow> string \<Rightarrow> run_state \<Rightarrow> run_state" where
  "on_exception pid t e st =
     (let msg = e;
          st1 = (if contains ''already exists'' msg \<and> contains ''memory'' (lower msg)
                 then log_line pid
                        (t @ '': warning Memory collection already exists; reusing existing memory.'')
                        st
                 else log_line pid (t @ '': error '' @ e) st);
          st2 = transact pid (TxUpdErr t) (upd_err t e) st1
      in emit (TickerError t e) st2)"

text \<open>
  The rest of the \<^verbatim>\<open>try\<close> block after the chunks, for the final state \<open>fs\<close>; the purchase
  price is read from the post \<open>p\<close> as it was when the request arrived.
\<close>

definition on_final_state ::
  "world \<Rightarrow> string \<Rightarrow> post \<Rightarrow> nat \<Rightarrow> ticker \<Rightarrow> graph_state \<Rightarrow> string option
   \<Rightarrow> run_state \<Rightarrow> run_state" where
  "on_final_state w pid p i t fs last_decision_seen st =
     (let decision = decide w fs last_decision_seen;
          norm_s = norm_of_decision decision;
          sig = signals_of fs;
          st1 = transact pid (TxUpd t) (upd t norm_s sig) st;
          cur = get_latest_price w i t;
          buy = purchase_of p t;
          pc = pct_of buy cur;
          st2 = transact pid (TxUpdSnap t) (upd_snap t cur pc) st1
      in emit (TickerDone t norm_s cur pc) st2)"

text \<open>The body of the loop over the tickers, and the loop.\<close>

definition ticker_body ::
  "world \<Rightarrow> string \<Rightarrow> post \<Rightarrow> string \<Rightarrow> nat \<Rightarrow> ticker \<Rightarrow> run_state \<Rightarrow> run_state" where
  "ticker_body w pid p date_str i t st =
     (let st0 = emit (TickerStart t) st;
          (chunks, exc) = stream w i t date_str;
          (st1, final_state, last_decision_seen) = chunk_loop pid t chunks (st0, None, None)
      in case exc of
           Some e \<Rightarrow> on_exception pid t e st1
         | None \<Rightarrow>
             (case final_state of
                None \<Rightarrow> on_exception pid t ''No final state produced by graph.stream'' st1
              | Some fs \<Rightarrow> on_final_state w pid p i t fs last_decision_seen st1))"

fun ticker_loop ::
  "world \<Rightarrow> string \<Rightarrow> post \<Rightarrow> string \<Rightarrow> nat \<Rightarrow> ticker list \<Rightarrow> run_state \<Rightarrow> run_state" where
  "ticker_loop w pid p date_str i [] st = st"
| "ticker_loop w pid p date_str i (t # ts) st =
     ticker_loop w pid p date_str (Suc i) ts (ticker_body w pid p date_str i t st)"

subsection \<open>The generator and the endpoint\<close>

text \<open>The lines of the final summary, from the \<^verbatim>\<open>per_ticker\<close> dict read back from the file.\<close>

fun summary_lines ::
  "world \<Rightarrow> options \<Rightarrow> (ticker \<times> ticker_result) list \<Rightarrow> nat \<Rightarrow> ticker list \<Rightarrow> string list" where
  "summary_lines w opts per i [] = []"
| "summary_lines w opts per i (tk # ts) =
     summary_line tk (case map_of per tk of None \<Rightarrow> [] | Some v \<Rightarrow> suggestion v)
       (date_or opts (today_at_line w i))
     # summary_lines w opts per (Suc i) ts"

text \<open>
  \<^verbatim>\<open>gen\<close>, for the post \<open>p\<close> found when the request arrived. If the post is gone when the
  summary is built, \<^verbatim>\<open>p_now.get\<close> raises and the generator ends there.
\<close>

definition gen :: "world \<Rightarrow> string \<Rightarrow> post \<Rightarrow> run_state \<Rightarrow> run_state" where
  "gen w pid p st =
     (let tks = tickers p;
          opts = options p;
          st1 = emit (Start pid tks) (transact pid TxInitAnalysis init_analysis st)
      in case import_error w of
           Some e \<Rightarrow>
             emit (Error (''TradingAgents import error: '' @ e))
               (transact pid (TxLogErr e) (log_err e) st1)
         | None \<Rightarrow>
             let date_str = date_or opts (today w);
                 st2 = ticker_loop w pid p date_str 0 tks st1;
                 posts_now = u_read (store st2)
             in case u_find posts_now pid of
                  None \<Rightarrow> st2\<lparr>escaped := Some ''AttributeError''\<rparr>
                | Some k \<Rightarrow>
                    let per = (case analysis (posts_now ! k) of
                                 None \<Rightarrow> []
                               | Some a \<Rightarrow> per_of a);
                        lines = summary_lines w opts per 0 tks
                    in emit (Done pid) (transact pid TxSetSummary (set_summary lines) st2))"

text \<open>\<^verbatim>\<open>analyze_post_stream\<close>: \<open>None\<close> is the answer 404, otherwise the run of the generator.\<close>

definition analyze_post_stream :: "world \<Rightarrow> string \<Rightarrow> disk \<Rightarrow> run_state option" where
  "analyze_post_stream w pid f =
     (let posts = u_read f in
      case u_find posts pid of
        None \<Rightarrow> None
      | Some k \<Rightarrow>
          Some (gen w pid (posts ! k) \<lparr>store = f, events = [], txs = [], escaped = None\<rparr>))"

section \<open>Properties of the text primitives\<close>

lemma contains_sublist: "contains sub s = sublist sub s"
  by (induction s) (auto simp: sublist_Cons_right)

lemma is_space_lower_char_id: "is_space c \<Longrightarrow> lower_char c = c"
  apply (simp add: is_space_def)
  apply (elim disjE)
  apply (simp_all add: lower_char_def)
  done

lemma sublist_map_dropWhile:
  assumes "kw \<noteq> []" and "\<And>c. P c \<Longrightarrow> f c \<notin> set kw"
  shows "sublist kw (map f (dropWhile P s)) = sublist kw (map f s)"
proof (induction s)
  case Nil
  then show ?case by simp
next
  case (Cons c cs)
  show ?case
  proof (cases "P c")
    case True
    from assms(1) obtain k ks where kw: "kw = k # ks"
      by (cases kw) auto
    with assms(2)[OF True] have "\<not> prefix kw (f c # map f cs)"
      by auto
    with True Cons show ?thesis
      by (simp add: sublist_Cons_right)
  next
    case False
    then show ?thesis by simp
  qed
qed

lemma contains_lower_strip:
  assumes "kw \<noteq> []" and "\<And>c. c \<in> set kw \<Longrightarrow> \<not> is_space c"
  shows "contains kw (lower (strip s)) = contains kw (lower s)"
proof -
  have avoid: "lower_char c \<notin> set k" if "is_space c" "set k = set kw" for c k
    using that assms(2) by (auto simp: is_space_lower_char_id)
  have mr: "map lower_char (rev X) = rev (map lower_char X)" for X
    by (simp add: rev_map)
  have "sublist kw (lower (strip s))
        = sublist (rev kw) (map lower_char (dropWhile is_space (rev (dropWhile is_space s))))"
    unfolding strip_def lower_def mr by (rule sublist_rev_right)
  also have "\<dots> = sublist (rev kw) (map lower_char (rev (dropWhile is_space s)))"
    using assms(1) by (intro sublist_map_dropWhile) (auto simp: avoid)
  also have "\<dots> = sublist kw (map lower_char (dropWhile is_space s))"
    unfolding mr by (simp add: sublist_rev_left)
  also have "\<dots> = sublist kw (map lower_char s)"
    using assms(1) by (intro sublist_map_dropWhile) (auto simp: avoid)
  finally show ?thesis
    by (simp add: contains_sublist lower_def)
qed

lemma contains_buy_strip: "contains ''buy'' (lower (strip s)) = contains ''buy'' (lower s)"
  by (rule contains_lower_strip) (auto simp: is_space_def)

lemma contains_sell_strip: "contains ''sell'' (lower (strip s)) = contains ''sell'' (lower s)"
  by (rule contains_lower_strip) (auto simp: is_space_def)

section \<open>Claims on the normalizer and the percent change\<close>

text \<open>
  C6. The lenient normalizer is total and follows the fixed priority: for every input
  (a string or \<^verbatim>\<open>None\<close>) it returns exactly one of Buy, Sell, Hold; Buy whenever the
  lowercased text contains "buy", even if it also contains "sell"; Sell when it contains
  "sell" but not "buy"; Hold otherwise, in particular on empty and \<^verbatim>\<open>None\<close> input. The
  inline normalization of the streaming generator computes the same value.
\<close>

theorem normalize_total_priority:
  "u_norm s \<in> {''Buy'', ''Sell'', ''Hold''}
   \<and> u_norm s =
       (if contains ''buy'' (lower (or_empty s)) then ''Buy''
        else if contains ''sell'' (lower (or_empty s)) then ''Sell''
        else ''Hold'')
   \<and> u_norm None = ''Hold'' \<and> u_norm (Some []) = ''Hold''
   \<and> norm_of_decision d = u_norm (Some d)"
proof -
  have eq: "u_norm x =
       (if contains ''buy'' (lower (or_empty x)) then ''Buy''
        else if contains ''sell'' (lower (or_empty x)) then ''Sell''
        else ''Hold'')" for x
    by (simp add: u_norm_def contains_buy_strip contains_sell_strip)
  have empty: "lower [] = []"
    by (simp add: lower_def)
  have "u_norm s \<in> {''Buy'', ''Sell'', ''Hold''}"
    unfolding eq by simp
  moreover have "u_norm None = ''Hold''" "u_norm (Some []) = ''Hold''"
    unfolding eq by (simp_all add: or_empty_def empty)
  moreover have "norm_of_decision d = u_norm (Some d)"
    unfolding eq by (simp add: norm_of_decision_def or_empty_def)
  ultimately show ?thesis
    using eq [of s] by simp
qed

section \<open>Percent change\<close>

text \<open>The floats of some integers, and one evaluation of the formula.\<close>

lemma f100: "pyfloat_of_int 100 = Float False 7036874417766400 (- 46)"
  by (simp add: pyfloat_of_int_def round_float_def scaled_divmod_def round_half_even_def
      bit_length.simps Let_def)

lemma f107: "pyfloat_of_int 107 = Float False 7529455627010048 (- 46)"
  by (simp add: pyfloat_of_int_def round_float_def scaled_divmod_def round_half_even_def
      bit_length.simps Let_def)

lemma f150: "pyfloat_of_int 150 = Float False 5277655813324800 (- 45)"
  by (simp add: pyfloat_of_int_def round_float_def scaled_divmod_def round_half_even_def
      bit_length.simps Let_def)

lemma f50: "pyfloat_of_int 50 = Float False 7036874417766400 (- 47)"
  by (simp add: pyfloat_of_int_def round_float_def scaled_divmod_def round_half_even_def
      bit_length.simps Let_def)

lemma f7: "pyfloat_of_int 7 = Float False 7881299347898368 (- 50)"
  by (simp add: pyfloat_of_int_def round_float_def scaled_divmod_def round_half_even_def
      bit_length.simps Let_def)

lemma pyfloat_100_nonzero: "\<not> eq_zero (pyfloat_of_int 100)"
  by (simp add: f100)

lemma percent_formula_100_150:
  "fmul (fdiv (fsub (pyfloat_of_int 150) (pyfloat_of_int 100)) (pyfloat_of_int 100))
        (pyfloat_of_int 100)
     = pyfloat_of_int 50"
  by (simp add: f100 f150 f50 signed_def round_float_def scaled_divmod_def
      round_half_even_def bit_length.simps Let_def)

text \<open>
  C7, as the code has it. \<^verbatim>\<open>percent_change(purchase, current)\<close> is \<^verbatim>\<open>None\<close> if and only if
  the purchase price is \<^verbatim>\<open>None\<close>, the current price is \<^verbatim>\<open>None\<close>, or the purchase price
  compares equal to zero (it is \<^verbatim>\<open>0.0\<close> or \<^verbatim>\<open>-0.0\<close>); in every other case it is the result
  of \<^verbatim>\<open>(current - purchase) / purchase * 100.0\<close> in float arithmetic: the difference, the
  quotient and the product, each rounded to the nearest float.
\<close>

theorem percent_change_defined:
  "(percent_change purchase cur = None
      \<longleftrightarrow> purchase = None \<or> cur = None \<or> (\<exists>p. purchase = Some p \<and> eq_zero p))
   \<and> (\<forall>p c. purchase = Some p \<and> cur = Some c \<and> \<not> eq_zero p
         \<longrightarrow> percent_change purchase cur
               = Some (fmul (fdiv (fsub c p) p) (pyfloat_of_int 100)))"
  by (auto simp: percent_change_def split: option.splits)

theorem percent_change_defined_witness:
  "percent_change (Some (pyfloat_of_int 100)) (Some (pyfloat_of_int 150))
     = Some (pyfloat_of_int 50)
   \<and> percent_change (Some (Float True 0 (- 1074))) (Some (pyfloat_of_int 150)) = None
   \<and> percent_change None (Some (pyfloat_of_int 150)) = None
   \<and> percent_change (Some (pyfloat_of_int 100)) None = None"
  using percent_change_defined [of "Some (pyfloat_of_int 100)" "Some (pyfloat_of_int 150)"]
        percent_change_defined [of "Some (Float True 0 (- 1074))" "Some (pyfloat_of_int 150)"]
        percent_change_defined [of None "Some (pyfloat_of_int 150)"]
        percent_change_defined [of "Some (pyfloat_of_int 100)" None]
  by (simp add: pyfloat_100_nonzero percent_formula_100_150)


text \<open>
  The claim C7 as stated, that the result is that expression exactly, fails for the
  purchase price 100 and the current price 107: the exact value 7 is a float, and
  \<^verbatim>\<open>percent_change\<close> returns the next float above it, \<^verbatim>\<open>7.000000000000001\<close>, because the
  quotient \<^verbatim>\<open>7.0 / 100.0\<close> is rounded before it is multiplied.
\<close>

theorem percent_change_counterexample:
  "percent_change (Some (pyfloat_of_int 100)) (Some (pyfloat_of_int 107))
     = Some (Float False 7881299347898369 (- 50))
   \<and> pyfloat_of_int 7 = Float False 7881299347898368 (- 50)"
  by (simp add: percent_change_def f100 f107 f7 signed_def round_float_def scaled_divmod_def
      round_half_even_def bit_length.simps Let_def)

section \<open>The decision scanners\<close>

lemma parse_lines_filter:
  "parse_lines tk ls d =
     (case filter (matching_line tk) ls of [] \<Rightarrow> d | m # ms \<Rightarrow> keyword_of (lower (last (m # ms))))"
proof (induction ls arbitrary: d)
  case Nil
  then show ?case by simp
next
  case (Cons l ls)
  show ?case
  proof (cases "matching_line tk l")
    case True
    then have step: "parse_lines tk (l # ls) d = parse_lines tk ls (keyword_of (lower l))"
      by (auto simp: matching_line_def decision_marker_def keyword_of_def Let_def)
    show ?thesis
      unfolding step Cons.IH using True by (simp split: list.splits)
  next
    case False
    then have step: "parse_lines tk (l # ls) d = parse_lines tk ls d"
      by (auto simp: matching_line_def decision_marker_def keyword_of_def Let_def)
    show ?thesis
      unfolding step Cons.IH using False by simp
  qed
qed

lemma derive_keyword: "u_derive_decision_from_text text = keyword_of (lower (or_empty text))"
  by (simp add: u_derive_decision_from_text_def keyword_of_def Let_def)

text \<open>
  C5, as the code has it. The report scanner \<^verbatim>\<open>parse_from_report\<close> takes its decision
  only from lines that mention the ticker, contain "final", "proposal", "decision" or a
  colon (case-insensitively) and contain buy, sell or hold; the last such line wins, and
  without such a line there is no decision. The chunk scanner
  \<^verbatim>\<open>_derive_decision_from_text\<close> applies the buy/sell/hold test to the whole text of a
  chunk: through its fallback branch every text that mentions buy, sell or hold yields a
  decision, with or without a decision marker, and the priority buy, sell, hold decides,
  not the order of the lines.
\<close>

theorem strict_scanner_amended:
  "parse_from_report report_text tk =
     (case filter (matching_line tk) (splitlines report_text) of
        [] \<Rightarrow> None
      | m # ms \<Rightarrow> keyword_of (lower (last (m # ms))))
   \<and> u_derive_decision_from_text text = keyword_of (lower (or_empty text))"
  by (simp add: parse_from_report_def parse_lines_filter derive_keyword splitlines_def)

theorem strict_scanner_amended_witness:
  "parse_from_report ''x final: buy\<newline>x final: sell\<newline>x may hold'' ''x'' = Some ''Sell''
   \<and> u_derive_decision_from_text (Some ''final: sell, do not buy'') = Some ''Buy''"
  using strict_scanner_amended
          [of "''x final: buy\<newline>x final: sell\<newline>x may hold''" "''x''"
              "Some ''final: sell, do not buy''"]
  by (simp add: splitlines_def is_linebreak_def matching_line_def decision_marker_def
      keyword_of_def or_empty_def lower_def lower_char_def upper_def upper_char_def)

text \<open>
  The claim C5 as stated fails on the chunk scanner: a text without any decision marker
  yields a decision, and in a two-line text the first line wins over the last.
\<close>

theorem strict_scanner_counterexample:
  "u_derive_decision_from_text (Some ''we should buy'') = Some ''Buy''
   \<and> \<not> decision_marker (lower ''we should buy'')
   \<and> u_derive_decision_from_text (Some ''final: buy\<newline>final: sell'') = Some ''Buy''
   \<and> splitlines ''final: buy\<newline>final: sell'' = [''final: buy'', ''final: sell'']
   \<and> keyword_of (lower ''final: sell'') = Some ''Sell''"
  by (simp add: u_derive_decision_from_text_def or_empty_def decision_marker_def keyword_of_def
      splitlines_def is_linebreak_def lower_def lower_char_def)

section \<open>The store transaction\<close>

lemma u_find_None: "u_find posts pid = None \<longleftrightarrow> pid \<notin> post_id ` set posts"
  by (induction posts) auto

lemma u_find_Some:
  "u_find posts pid = Some i \<Longrightarrow>
     i < length posts \<and> post_id (posts ! i) = pid \<and> (\<forall>j<i. post_id (posts ! j) \<noteq> pid)"
proof (induction posts arbitrary: i)
  case Nil
  then show ?case by simp
next
  case (Cons p ps)
  show ?case
  proof (cases "post_id p = pid")
    case True
    with Cons.prems show ?thesis by simp
  next
    case False
    with Cons.prems obtain k where k: "u_find ps pid = Some k" "i = Suc k"
      by auto
    from Cons.IH[OF k(1)] False k(2) show ?thesis
      by (auto simp: less_Suc_eq_0_disj)
  qed
qed

text \<open>
  C8. \<^verbatim>\<open>_update_post\<close> reads the full collection and looks the id up: if no post has
  the id it returns False and the data file is unchanged; if a post has it, the first
  such post is the one found, and when the mutator returns normally the collection with
  that post replaced by the mutated one is written in full and the result is True.
\<close>

theorem update_post_transaction:
  "(u_find (u_read f) pid = None \<longleftrightarrow> pid \<notin> post_id ` set (u_read f))
   \<and> (u_find (u_read f) pid = None \<longrightarrow> u_update_post pid mutator f = (Inr False, f))
   \<and> (\<forall>i p'. u_find (u_read f) pid = Some i \<and> mutator (u_read f ! i) = (p', None) \<longrightarrow>
          i < length (u_read f) \<and> post_id (u_read f ! i) = pid
          \<and> (\<forall>j<i. post_id (u_read f ! j) \<noteq> pid)
          \<and> u_update_post pid mutator f = (Inr True, Content ((u_read f)[i := p'])))"
proof -
  have none: "u_update_post pid mutator f = (Inr False, f)" if "u_find (u_read f) pid = None"
    using that by (simp add: u_update_post_def)
  have some: "u_update_post pid mutator f = (Inr True, Content ((u_read f)[i := p']))"
    if "u_find (u_read f) pid = Some i" "mutator (u_read f ! i) = (p', None)" for i p'
    using that by (simp add: u_update_post_def u_write_def)
  show ?thesis
    using u_find_None[of "u_read f" pid] u_find_Some[of "u_read f" pid] none some
    by blast
qed

theorem update_post_transaction_witness:
  "u_update_post ''b'' (\<lambda>p. (p\<lparr>tickers := [''MSFT'']\<rparr>, None))
       (Content [sample_post ''a'', sample_post ''b''])
     = (Inr True, Content [sample_post ''a'', (sample_post ''b'')\<lparr>tickers := [''MSFT'']\<rparr>])
   \<and> u_update_post ''zz'' (\<lambda>p. (p\<lparr>tickers := [''MSFT'']\<rparr>, None))
       (Content [sample_post ''a'', sample_post ''b''])
     = (Inr False, Content [sample_post ''a'', sample_post ''b''])"
  using update_post_transaction
          [of "Content [sample_post ''a'', sample_post ''b'']" "''b''"
              "\<lambda>p. (p\<lparr>tickers := [''MSFT'']\<rparr>, None)"]
        update_post_transaction
          [of "Content [sample_post ''a'', sample_post ''b'']" "''zz''"
              "\<lambda>p. (p\<lparr>tickers := [''MSFT'']\<rparr>, None)"]
  by (simp add: u_read_def sample_post_def)

text \<open>
  C10. When the mutator raises on the post it is given, \<^verbatim>\<open>_update_post\<close> propagates the
  exception and the data file is unchanged, whatever the mutator did to the post before
  raising: the write is not reached. (For an id that no post has the mutator is not
  called; the result is False and the file is unchanged as well.)
\<close>

theorem update_post_failing_mutator:
  assumes "\<And>i. u_find (u_read f) pid = Some i \<Longrightarrow> \<exists>p' e. mutator (u_read f ! i) = (p', Some e)"
  shows "snd (u_update_post pid mutator f) = f
         \<and> (pid \<in> post_id ` set (u_read f) \<longrightarrow>
              (\<exists>i p' e. u_find (u_read f) pid = Some i \<and> mutator (u_read f ! i) = (p', Some e)
                  \<and> fst (u_update_post pid mutator f) = Inl e))
         \<and> (pid \<notin> post_id ` set (u_read f) \<longrightarrow> fst (u_update_post pid mutator f) = Inr False)"
proof (cases "u_find (u_read f) pid")
  case None
  then have "pid \<notin> post_id ` set (u_read f)"
    by (simp add: u_find_None)
  moreover from None have "u_update_post pid mutator f = (Inr False, f)"
    by (simp add: u_update_post_def)
  ultimately show ?thesis
    by simp
next
  case (Some i)
  from assms[OF Some] obtain p' e where m: "mutator (u_read f ! i) = (p', Some e)"
    by blast
  from Some have "pid \<in> post_id ` set (u_read f)"
    using u_find_None[of "u_read f" pid] by simp
  moreover from Some m have "u_update_post pid mutator f = (Inl e, f)"
    by (simp add: u_update_post_def)
  ultimately show ?thesis
    using Some m by simp
qed

theorem update_post_failing_mutator_witness:
  "u_update_post ''b'' (\<lambda>p. (p\<lparr>tickers := []\<rparr>, Some ''boom''))
       (Content [sample_post ''a'', sample_post ''b''])
     = (Inl ''boom'', Content [sample_post ''a'', sample_post ''b''])"
proof -
  let ?f = "Content [sample_post ''a'', sample_post ''b'']"
  let ?m = "\<lambda>p. (p\<lparr>tickers := []\<rparr>, Some ''boom'')"
  have found: "u_find (u_read ?f) ''b'' = Some 1"
    by (simp add: u_read_def sample_post_def)
  have "\<And>i. u_find (u_read ?f) ''b'' = Some i \<Longrightarrow> \<exists>p' e. ?m (u_read ?f ! i) = (p', Some e)"
    by simp
  from update_post_failing_mutator[of ?f "''b''" ?m, OF this] found
  show ?thesis
    by (cases "u_update_post ''b'' ?m ?f") (auto simp: u_read_def sample_post_def)
qed

section \<open>Reordering the collection\<close>


















end
